theory Spec2Isabelle
  imports Main
begin

section \<open>Agent Hub: registration, invocation and health tracking\<close>

text \<open>
  A shallow embedding of the agent endpoints of \<^verbatim>\<open>main.py\<close>:
  \<^verbatim>\<open>register_agent\<close>, \<^verbatim>\<open>test_agent\<close>, \<^verbatim>\<open>stream_agent\<close> and
  \<^verbatim>\<open>check_agent_health\<close>.

  The handlers talk to two collaborators. The remote agent is reached through httpx; each
  handler takes the outcome of its one outbound call as a function argument, and a response is
  described by what the handler can observe of it (status code, the result of parsing the body).
  The record store is a SQLAlchemy session; it is the list of rows of the \<^verbatim>\<open>agents\<close>
  table, a select filters the rows, and mutating a loaded row followed by \<^verbatim>\<open>commit\<close>
  replaces the row with that primary key. Every handler returns its result together with the
  rows after the call. The insert of a registration goes through the \<^verbatim>\<open>String\<close> and
  \<^verbatim>\<open>Text\<close> columns of the SQLite table, which store a number as its text and refuse a
  list or a dict. Other commit failures and the authentication dependency that runs before a
  handler are outside the embedding.
\<close>

subsection \<open>JSON values\<close>

text \<open>
  A parsed JSON document as Python holds it: \<^verbatim>\<open>None\<close>, \<^verbatim>\<open>bool\<close>, a number,
  \<^verbatim>\<open>str\<close>, \<^verbatim>\<open>list\<close>, and \<^verbatim>\<open>dict\<close> as the list of its items in
  insertion order. Only integral numbers are represented.
\<close>

datatype json =
    JNull
  | JBool bool
  | JNum int
  | JStr string
  | JArr "json list"
  | JObj "(string \<times> json) list"

text \<open>\<^verbatim>\<open>d.get(k)\<close> on a dict: the value, or \<^verbatim>\<open>None\<close> when the key is missing.\<close>

definition dict_get :: "(string \<times> json) list \<Rightarrow> string \<Rightarrow> json" where
  "dict_get d k = (case map_of d k of None \<Rightarrow> JNull | Some v \<Rightarrow> v)"

text \<open>\<^verbatim>\<open>d[k] = v\<close> on a dict: an existing key keeps its position, a new key goes last.\<close>

fun setitem :: "'k \<Rightarrow> 'v \<Rightarrow> ('k \<times> 'v) list \<Rightarrow> ('k \<times> 'v) list" where
  "setitem k v [] = [(k, v)]"
| "setitem k v (p # ps) = (if fst p = k then (k, v) # ps else p # setitem k v ps)"

subsection \<open>Exceptions and outcomes\<close>

text \<open>
  The handlers distinguish two classes of exception: instances of \<^verbatim>\<open>httpx.HTTPError\<close>
  (transport failures, timeouts, and the \<^verbatim>\<open>HTTPStatusError\<close> of
  \<^verbatim>\<open>raise_for_status\<close>) and every other \<^verbatim>\<open>Exception\<close>. Each carries the text of
  \<^verbatim>\<open>str(e)\<close>.
\<close>

datatype exn = HTTPError string | Exception string

datatype 'a outcome = Returns 'a | Raises exn

text \<open>
  What a handler hands back to the framework: an \<^verbatim>\<open>HTTPException\<close> with status code and
  detail, or an exception that no handler code catches (the framework answers 500), named by its
  class.
\<close>

datatype failure = HTTPException int string | Unhandled string

type_synonym datetime = nat

subsection \<open>The response of a plain request\<close>

text \<open>
  \<^verbatim>\<open>status_error\<close> is the message of the \<^verbatim>\<open>HTTPStatusError\<close> that httpx builds for
  the response. \<^verbatim>\<open>json_body\<close> is the result of \<^verbatim>\<open>resp.json()\<close>: the parsed document,
  or the message of the decoder's \<^verbatim>\<open>ValueError\<close> (\<^verbatim>\<open>JSONDecodeError\<close>), which is not
  an \<^verbatim>\<open>httpx.HTTPError\<close>.
\<close>

record response =
  status_code :: int
  status_error :: string
  json_body :: "string + json"

text \<open>
  \<^verbatim>\<open>resp.raise_for_status()\<close> of httpx: returns for a 2xx status and raises
  \<^verbatim>\<open>HTTPStatusError\<close>, an \<^verbatim>\<open>httpx.HTTPError\<close>, for every other status.
\<close>

definition raise_for_status :: "response \<Rightarrow> unit outcome" where
  "raise_for_status resp =
     (if 200 \<le> status_code resp \<and> status_code resp \<le> 299 then Returns ()
      else Raises (HTTPError (status_error resp)))"

subsection \<open>The agents table\<close>

text \<open>
  An \<^verbatim>\<open>Agent\<close>; the primary key \<^verbatim>\<open>id\<close> is the field \<^verbatim>\<open>agent_id\<close>. The
  attributes filled from the card are Python values: the handler constructs the object with
  whatever JSON value the card has there, unchecked, and a row read back from the table holds
  \<^verbatim>\<open>None\<close> (\<^verbatim>\<open>JNull\<close>) or a \<^verbatim>\<open>str\<close> (\<^verbatim>\<open>JStr\<close>) in its text columns. A
  \<^verbatim>\<open>datetime\<close> is a point on a clock of natural numbers.
\<close>

record agent =
  agent_id :: int
  url :: string
  name :: json
  description :: json
  version :: json
  skills :: "json list"
  provider :: json
  documentation_url :: json
  user_id :: int
  registered_at :: datetime
  last_health_check :: "datetime option"
  is_healthy :: bool

text \<open>
  \<^verbatim>\<open>scalar_one_or_none()\<close>: no row gives \<^verbatim>\<open>None\<close>, one row gives the row, more rows
  raise \<^verbatim>\<open>MultipleResultsFound\<close>.
\<close>

definition scalar_one_or_none :: "'a list \<Rightarrow> string + 'a option" where
  "scalar_one_or_none rows =
     (case rows of
        [] \<Rightarrow> Inr None
      | [r] \<Rightarrow> Inr (Some r)
      | _ \<Rightarrow> Inl ''MultipleResultsFound'')"

definition select_agent_by_id :: "agent list \<Rightarrow> int \<Rightarrow> string + agent option" where
  "select_agent_by_id db aid = scalar_one_or_none (filter (\<lambda>a. agent_id a = aid) db)"

definition select_agent_by_url :: "agent list \<Rightarrow> string \<Rightarrow> string + agent option" where
  "select_agent_by_url db u = scalar_one_or_none (filter (\<lambda>a. url a = u) db)"

text \<open>Committing a mutated row: the row with its primary key is replaced.\<close>

definition commit :: "agent list \<Rightarrow> agent \<Rightarrow> agent list" where
  "commit db a = map (\<lambda>r. if agent_id r = agent_id a then a else r) db"

subsection \<open>Outbound headers\<close>

record agent_test_request =
  message :: string
  openai_api_key :: "string option"
  openai_base_url :: "string option"
  openai_model :: "string option"
  tavily_api_key :: "string option"
  custom_headers :: "(string \<times> string) list option"

type_synonym headers = "(string \<times> string) list"

text \<open>\<^verbatim>\<open>str.lower()\<close> on the ASCII letters, which is all the prefix test can depend on.\<close>

definition lower_char :: "char \<Rightarrow> char" where
  "lower_char c =
     (if 65 \<le> (of_char c :: nat) \<and> (of_char c :: nat) \<le> 90
      then char_of ((of_char c :: nat) + 32) else c)"

definition lower :: "string \<Rightarrow> string" where
  "lower s = map lower_char s"

definition startswith :: "string \<Rightarrow> string \<Rightarrow> bool" where
  "startswith s p = (take (length p) s = p)"

text \<open>
  \<^verbatim>\<open>header_key = key if key.lower().startswith("x-") else f"X-{key}"\<close>
\<close>

definition header_key :: "string \<Rightarrow> string" where
  "header_key key = (if startswith (lower key) ''x-'' then key else ''X-'' @ key)"

text \<open>
  \<^verbatim>\<open>if req.field: headers[k] = req.field\<close>: \<^verbatim>\<open>None\<close> and the empty string are falsy.
\<close>

definition set_if_present :: "string \<Rightarrow> string option \<Rightarrow> headers \<Rightarrow> headers" where
  "set_if_present k field h =
     (case field of
        None \<Rightarrow> h
      | Some v \<Rightarrow> if v = [] then h else setitem k v h)"

text \<open>The loop over \<^verbatim>\<open>req.custom_headers.items()\<close>.\<close>

fun add_custom_headers :: "(string \<times> string) list \<Rightarrow> headers \<Rightarrow> headers" where
  "add_custom_headers [] h = h"
| "add_custom_headers ((key, value) # items) h =
     add_custom_headers items (setitem (header_key key) value h)"

text \<open>
  Both handlers build their headers by the same statements, from a different initial dict.
\<close>

definition build_headers :: "headers \<Rightarrow> agent_test_request \<Rightarrow> headers" where
  "build_headers initial req =
     (let h = set_if_present ''X-OpenAI-API-Key'' (openai_api_key req) initial;
          h = set_if_present ''X-OpenAI-Base-URL'' (openai_base_url req) h;
          h = set_if_present ''X-OpenAI-Model'' (openai_model req) h;
          h = set_if_present ''X-Tavily-API-Key'' (tavily_api_key req) h
      in case custom_headers req of
           None \<Rightarrow> h
         | Some items \<Rightarrow> if items = [] then h else add_custom_headers items h)"

definition test_headers :: "agent_test_request \<Rightarrow> headers" where
  "test_headers req = build_headers [(''Content-Type'', ''application/json'')] req"

definition stream_headers :: "agent_test_request \<Rightarrow> headers" where
  "stream_headers req =
     build_headers [(''Content-Type'', ''application/json''), (''Accept'', ''text/event-stream'')] req"

text \<open>The JSON-RPC envelope; \<^verbatim>\<open>message_id\<close> is the fresh \<^verbatim>\<open>uuid4\<close>.\<close>

definition payload :: "string \<Rightarrow> string \<Rightarrow> string \<Rightarrow> string \<Rightarrow> json" where
  "payload rpc_id method message_id text =
     JObj [(''jsonrpc'', JStr ''2.0''),
           (''id'', JStr rpc_id),
           (''method'', JStr method),
           (''params'', JObj [(''message'',
              JObj [(''messageId'', JStr message_id),
                    (''role'', JStr ''user''),
                    (''parts'', JArr [JObj [(''type'', JStr ''text''), (''text'', JStr text)]])])])]"

subsection \<open>Synchronous invoke: \<^verbatim>\<open>test_agent\<close>\<close>

text \<open>
  The body of the \<^verbatim>\<open>try\<close> block up to \<^verbatim>\<open>response_data\<close>: the POST, then
  \<^verbatim>\<open>raise_for_status\<close>, then \<^verbatim>\<open>resp.json()\<close>.
\<close>

definition post_and_parse ::
  "(string \<Rightarrow> json \<Rightarrow> headers \<Rightarrow> response outcome) \<Rightarrow> string \<Rightarrow> json \<Rightarrow> headers \<Rightarrow> json outcome" where
  "post_and_parse post u body h =
     (case post u body h of
        Raises e \<Rightarrow> Raises e
      | Returns resp \<Rightarrow>
          (case raise_for_status resp of
             Raises e \<Rightarrow> Raises e
           | Returns _ \<Rightarrow>
               (case json_body resp of
                  Inl m \<Rightarrow> Raises (Exception m)
                | Inr response_data \<Rightarrow> Returns response_data)))"

definition test_agent ::
  "(string \<Rightarrow> json \<Rightarrow> headers \<Rightarrow> response outcome) \<Rightarrow> datetime \<Rightarrow> string \<Rightarrow>
   agent list \<Rightarrow> int \<Rightarrow> agent_test_request \<Rightarrow> (failure + json) \<times> agent list" where
  "test_agent post now message_id db aid req =
     (case select_agent_by_id db aid of
        Inl e \<Rightarrow> (Inl (Unhandled e), db)
      | Inr None \<Rightarrow> (Inl (HTTPException 404 ''Agent not found''), db)
      | Inr (Some agent) \<Rightarrow>
          (case post_and_parse post (url agent)
                  (payload ''test-1'' ''message/send'' message_id (message req))
                  (test_headers req) of
             Returns response_data \<Rightarrow>
               (Inr (JObj [(''status'', JStr ''success''), (''response'', response_data)]),
                commit db (agent\<lparr>is_healthy := True, last_health_check := Some now\<rparr>))
           | Raises (HTTPError m) \<Rightarrow>
               (Inl (HTTPException 502 (''Agent communication failed: '' @ m)),
                commit db (agent\<lparr>is_healthy := False, last_health_check := Some now\<rparr>))
           | Raises (Exception m) \<Rightarrow>
               (Inl (HTTPException 500 (''Unexpected error: '' @ m)),
                commit db (agent\<lparr>is_healthy := False, last_health_check := Some now\<rparr>))))"

subsection \<open>Health probe: \<^verbatim>\<open>check_agent_health\<close>\<close>

text \<open>
  The body of the \<^verbatim>\<open>try\<close> block: the GET of the card URL, then
  \<^verbatim>\<open>raise_for_status\<close>. The body of the response is not read.
\<close>

definition get_and_check :: "(string \<Rightarrow> response outcome) \<Rightarrow> string \<Rightarrow> response outcome" where
  "get_and_check get u =
     (case get u of
        Raises e \<Rightarrow> Raises e
      | Returns resp \<Rightarrow>
          (case raise_for_status resp of
             Raises e \<Rightarrow> Raises e
           | Returns _ \<Rightarrow> Returns resp))"

definition health_result :: "string \<Rightarrow> string \<Rightarrow> json" where
  "health_result s u = JObj [(''status'', JStr s), (''url'', JStr u)]"

definition check_agent_health ::
  "(string \<Rightarrow> response outcome) \<Rightarrow> datetime \<Rightarrow> agent list \<Rightarrow> int \<Rightarrow>
   (failure + json) \<times> agent list" where
  "check_agent_health get now db aid =
     (case select_agent_by_id db aid of
        Inl e \<Rightarrow> (Inl (Unhandled e), db)
      | Inr None \<Rightarrow> (Inl (HTTPException 404 ''Agent not found''), db)
      | Inr (Some agent) \<Rightarrow>
          (case get_and_check get (url agent @ ''/.well-known/agent.json'') of
             Returns _ \<Rightarrow>
               (Inr (health_result ''healthy'' (url agent)),
                commit db (agent\<lparr>is_healthy := True, last_health_check := Some now\<rparr>))
           | Raises _ \<Rightarrow>
               (Inr (health_result ''unhealthy'' (url agent)),
                commit db (agent\<lparr>is_healthy := False, last_health_check := Some now\<rparr>))))"

subsection \<open>Registration: \<^verbatim>\<open>register_agent\<close>\<close>

text \<open>\<^verbatim>\<open>s.rstrip(c)\<close> for a single character: every trailing occurrence is removed.\<close>

definition rstrip :: "char \<Rightarrow> string \<Rightarrow> string" where
  "rstrip c s = rev (dropWhile (\<lambda>x. x = c) (rev s))"

text \<open>
  The \<^verbatim>\<open>try\<close> block of the registration: GET, \<^verbatim>\<open>raise_for_status\<close>,
  \<^verbatim>\<open>resp.json()\<close>.
\<close>

definition fetch_card :: "(string \<Rightarrow> response outcome) \<Rightarrow> string \<Rightarrow> json outcome" where
  "fetch_card get u =
     (case get u of
        Raises e \<Rightarrow> Raises e
      | Returns resp \<Rightarrow>
          (case raise_for_status resp of
             Raises e \<Rightarrow> Raises e
           | Returns _ \<Rightarrow>
               (case json_body resp of
                  Inl m \<Rightarrow> Raises (Exception m)
                | Inr agent_card \<Rightarrow> Returns agent_card)))"

text \<open>
  The code after the \<^verbatim>\<open>try\<close> block runs unguarded, so what Python raises on a card of
  an unexpected shape reaches the framework. \<^verbatim>\<open>skill.get\<close> exists on a dict only.
\<close>

fun skill_info :: "json \<Rightarrow> string + json" where
  "skill_info (JObj skill) =
     Inr (JObj [(''id'', dict_get skill ''id''),
                (''name'', dict_get skill ''name''),
                (''description'', dict_get skill ''description'')])"
| "skill_info _ = Inl ''AttributeError''"

text \<open>
  \<^verbatim>\<open>for skill in v\<close>: the elements of a list, the keys of a dict, the characters of a
  string; anything else is not iterable.
\<close>

fun iterate :: "json \<Rightarrow> string + json list" where
  "iterate (JArr xs) = Inr xs"
| "iterate (JObj d) = Inr (map (\<lambda>p. JStr (fst p)) d)"
| "iterate (JStr s) = Inr (map (\<lambda>c. JStr [c]) s)"
| "iterate _ = Inl ''TypeError''"

fun append_skills :: "json list \<Rightarrow> json list \<Rightarrow> string + json list" where
  "append_skills [] acc = Inr acc"
| "append_skills (skill # rest) acc =
     (case skill_info skill of
        Inl e \<Rightarrow> Inl e
      | Inr info \<Rightarrow> append_skills rest (acc @ [info]))"

definition extract_skills :: "(string \<times> json) list \<Rightarrow> string + json list" where
  "extract_skills agent_card =
     (if map_of agent_card ''skills'' \<noteq> None
      then (case iterate (dict_get agent_card ''skills'') of
              Inl e \<Rightarrow> Inl e
            | Inr xs \<Rightarrow> append_skills xs [])
      else Inr [])"

text \<open>
  \<^verbatim>\<open>card.get("provider", {}).get("organization") if isinstance(card.get("provider"), dict)
  else card.get("provider")\<close>
\<close>

definition extract_provider :: "(string \<times> json) list \<Rightarrow> json" where
  "extract_provider agent_card =
     (case dict_get agent_card ''provider'' of
        JObj p \<Rightarrow> dict_get p ''organization''
      | v \<Rightarrow> v)"

text \<open>The calling user; \<^verbatim>\<open>user.id\<close> is the field \<^verbatim>\<open>uid\<close>.\<close>

record user =
  uid :: int
  username :: string

text \<open>
  The \<^verbatim>\<open>Agent(...)\<close> that the handler constructs from the card; the primary key is
  assigned on insert. On a card that is not a dict, \<^verbatim>\<open>"skills" in card\<close> raises
  \<^verbatim>\<open>TypeError\<close> for \<^verbatim>\<open>None\<close>, booleans and numbers, and \<^verbatim>\<open>card.get\<close> raises
  \<^verbatim>\<open>AttributeError\<close> for lists and strings.
\<close>

fun new_agent :: "json \<Rightarrow> string \<Rightarrow> user \<Rightarrow> datetime \<Rightarrow> string + agent" where
  "new_agent (JObj agent_card) u usr now =
     (case extract_skills agent_card of
        Inl e \<Rightarrow> Inl e
      | Inr sk \<Rightarrow>
          Inr \<lparr>agent_id = 0,
               url = u,
               name = dict_get agent_card ''name'',
               description = dict_get agent_card ''description'',
               version = dict_get agent_card ''version'',
               skills = sk,
               provider = extract_provider agent_card,
               documentation_url = dict_get agent_card ''documentationUrl'',
               user_id = uid usr,
               registered_at = now,
               last_health_check = Some now,
               is_healthy = True\<rparr>)"
| "new_agent (JArr _) u usr now = Inl ''AttributeError''"
| "new_agent (JStr _) u usr now = Inl ''AttributeError''"
| "new_agent _ u usr now = Inl ''TypeError''"

text \<open>The primary key of an inserted row: one more than the largest key in the table.\<close>

definition new_id :: "agent list \<Rightarrow> int" where
  "new_id db = fold max (map agent_id db) 0 + 1"

text \<open>The decimal text of an integer, as SQLite renders it.\<close>

fun digits :: "nat \<Rightarrow> string" where
  "digits n =
     (if n < 10 then [''0123456789'' ! n]
      else digits (n div 10) @ [''0123456789'' ! (n mod 10)])"

declare digits.simps [simp del]

definition str_int :: "int \<Rightarrow> string" where
  "str_int i = (if i < 0 then CHR ''-'' # digits (nat (- i)) else digits (nat i))"

text \<open>
  What \<^verbatim>\<open>db.commit()\<close> followed by \<^verbatim>\<open>db.refresh(agent)\<close> leaves in a
  \<^verbatim>\<open>String\<close> or \<^verbatim>\<open>Text\<close> attribute. SQLAlchemy hands the Python value to the
  sqlite3 driver as it is. \<^verbatim>\<open>None\<close> is stored as NULL and a \<^verbatim>\<open>str\<close> as itself. An
  \<^verbatim>\<open>int\<close> is bound as an INTEGER, which the text affinity of the column turns into its
  decimal text; a \<^verbatim>\<open>bool\<close> is the int 1 or 0; an int outside 64 bits raises
  \<^verbatim>\<open>OverflowError\<close>. A \<^verbatim>\<open>list\<close> or \<^verbatim>\<open>dict\<close> cannot be bound: the driver's error
  surfaces as a \<^verbatim>\<open>DBAPIError\<close> of SQLAlchemy and the transaction adds no row.
\<close>

fun text_column :: "json \<Rightarrow> string + json" where
  "text_column JNull = Inr JNull"
| "text_column (JStr s) = Inr (JStr s)"
| "text_column (JNum i) =
     (if - (2 ^ 63) \<le> i \<and> i < 2 ^ 63 then Inr (JStr (str_int i)) else Inl ''OverflowError'')"
| "text_column (JBool b) = Inr (JStr (if b then ''1'' else ''0''))"
| "text_column (JArr xs) = Inl ''DBAPIError''"
| "text_column (JObj d) = Inl ''DBAPIError''"

text \<open>
  \<^verbatim>\<open>db.add(agent); await db.commit(); await db.refresh(agent)\<close>: the parameters of the
  INSERT are bound in column order, the first one that cannot be bound raises, and otherwise the
  refreshed object is the stored row with its fresh primary key. The \<^verbatim>\<open>skills\<close> column is
  a JSON column and gives back the list it was given.
\<close>

definition insert_agent :: "agent list \<Rightarrow> agent \<Rightarrow> string + agent" where
  "insert_agent db a =
     (case text_column (name a) of
        Inl e \<Rightarrow> Inl e
      | Inr stored_name \<Rightarrow>
     (case text_column (description a) of
        Inl e \<Rightarrow> Inl e
      | Inr stored_description \<Rightarrow>
     (case text_column (version a) of
        Inl e \<Rightarrow> Inl e
      | Inr stored_version \<Rightarrow>
     (case text_column (provider a) of
        Inl e \<Rightarrow> Inl e
      | Inr stored_provider \<Rightarrow>
     (case text_column (documentation_url a) of
        Inl e \<Rightarrow> Inl e
      | Inr stored_documentation_url \<Rightarrow>
          Inr (a\<lparr>agent_id := new_id db,
                 name := stored_name,
                 description := stored_description,
                 version := stored_version,
                 provider := stored_provider,
                 documentation_url := stored_documentation_url\<rparr>))))))"

text \<open>
  \<^verbatim>\<open>AgentResponse\<close>: id, url, name, description, version, skills, provider,
  documentation_url, registered_by, registered_at, is_healthy. The timestamp stands for its
  \<^verbatim>\<open>isoformat()\<close> rendering.
\<close>

datatype agent_response =
  AgentResponse int string json json json "json list" json json string datetime bool

definition response_of :: "agent \<Rightarrow> string \<Rightarrow> agent_response" where
  "response_of a registered_by =
     AgentResponse (agent_id a) (url a) (name a) (description a) (version a) (skills a)
       (provider a) (documentation_url a) registered_by (registered_at a) (is_healthy a)"

definition register_agent ::
  "(string \<Rightarrow> response outcome) \<Rightarrow> datetime \<Rightarrow> user \<Rightarrow> agent list \<Rightarrow> string \<Rightarrow>
   (failure + agent_response) \<times> agent list" where
  "register_agent get now usr db req_url =
     (let u = rstrip CHR ''/'' req_url in
      case select_agent_by_url db u of
        Inl e \<Rightarrow> (Inl (Unhandled e), db)
      | Inr (Some existing) \<Rightarrow> (Inl (HTTPException 400 ''Agent already registered''), db)
      | Inr None \<Rightarrow>
          (let agent_card_url = u @ ''/.well-known/agent.json'' in
           case fetch_card get agent_card_url of
             Raises (HTTPError m) \<Rightarrow>
               (Inl (HTTPException 400
                  (''Failed to fetch agent card from '' @ agent_card_url @ '': '' @ m)), db)
           | Raises (Exception m) \<Rightarrow>
               (Inl (HTTPException 400 (''Invalid agent card response: '' @ m)), db)
           | Returns agent_card \<Rightarrow>
               (case new_agent agent_card u usr now of
                  Inl e \<Rightarrow> (Inl (Unhandled e), db)
                | Inr a \<Rightarrow>
                    (case insert_agent db a of
                       Inl e \<Rightarrow> (Inl (Unhandled e), db)
                     | Inr agent \<Rightarrow>
                         (Inr (response_of agent (username usr)), db @ [agent])))))"

subsection \<open>Streaming invoke: \<^verbatim>\<open>stream_agent\<close>\<close>

text \<open>
  The streamed response as the generator observes it: the status code, the result of
  \<^verbatim>\<open>(await resp.aread()).decode()\<close> (an \<^verbatim>\<open>httpx.HTTPError\<close> when reading fails, another
  exception when the bytes do not decode), the lines that \<^verbatim>\<open>aiter_lines()\<close> yields, and the
  exception that ends the iteration, if one does.
\<close>

record stream_response =
  stream_status_code :: int
  body_text :: "string outcome"
  lines :: "string list"
  lines_error :: "exn option"

text \<open>
  What the generator yields: \<^verbatim>\<open>Data obj\<close> is \<^verbatim>\<open>f"data: {json.dumps(obj)}\n\n"\<close>,
  \<^verbatim>\<open>Line l\<close> is \<^verbatim>\<open>f"{l}\n"\<close>, \<^verbatim>\<open>Newline\<close> is \<^verbatim>\<open>"\n"\<close>.
\<close>

datatype chunk = Data json | Line string | Newline

fun error_chunk :: "exn \<Rightarrow> chunk" where
  "error_chunk (HTTPError m) =
     Data (JObj [(''error'', JStr m), (''type'', JStr ''connection_error'')])"
| "error_chunk (Exception m) =
     Data (JObj [(''error'', JStr m), (''type'', JStr ''unexpected_error'')])"

definition relay_line :: "string \<Rightarrow> chunk" where
  "relay_line l = (if l \<noteq> [] then Line l else Newline)"

definition event_generator ::
  "(string \<Rightarrow> json \<Rightarrow> headers \<Rightarrow> stream_response outcome) \<Rightarrow> string \<Rightarrow> json \<Rightarrow> headers \<Rightarrow>
   chunk list" where
  "event_generator stream u body h =
     (case stream u body h of
        Raises e \<Rightarrow> [error_chunk e]
      | Returns resp \<Rightarrow>
          if stream_status_code resp \<noteq> 200
          then (case body_text resp of
                  Raises e \<Rightarrow> [error_chunk e]
                | Returns error_text \<Rightarrow>
                    [Data (JObj [(''error'', JStr error_text),
                                 (''status_code'', JNum (stream_status_code resp))])])
          else map relay_line (lines resp) @
               (case lines_error resp of None \<Rightarrow> [] | Some e \<Rightarrow> [error_chunk e]))"

text \<open>
  The handler returns the \<^verbatim>\<open>StreamingResponse\<close> over the generator; its body is the list
  of chunks. The handler only reads the table.
\<close>

definition stream_agent ::
  "(string \<Rightarrow> json \<Rightarrow> headers \<Rightarrow> stream_response outcome) \<Rightarrow> string \<Rightarrow>
   agent list \<Rightarrow> int \<Rightarrow> agent_test_request \<Rightarrow> (failure + chunk list) \<times> agent list" where
  "stream_agent stream message_id db aid req =
     (case select_agent_by_id db aid of
        Inl e \<Rightarrow> (Inl (Unhandled e), db)
      | Inr None \<Rightarrow> (Inl (HTTPException 404 ''Agent not found''), db)
      | Inr (Some agent) \<Rightarrow>
          (Inr (event_generator stream (url agent)
                  (payload ''stream-1'' ''message/stream'' message_id (message req))
                  (stream_headers req)),
           db))"

subsection \<open>Example inputs\<close>

text \<open>
  The record of the agent at \<^verbatim>\<open>http://agent.example/a\<close> whose card is
  \<^verbatim>\<open>{"name":"Echo","skills":[{"id":"s1","name":"echo"}]}\<close>, registered by user 7 at time 100.
\<close>

definition echo_agent :: agent where
  "echo_agent =
     \<lparr>agent_id = 1, url = ''http://agent.example/a'', name = JStr ''Echo'',
      description = JNull, version = JNull,
      skills = [JObj [(''id'', JStr ''s1''), (''name'', JStr ''echo''), (''description'', JNull)]],
      provider = JNull, documentation_url = JNull, user_id = 7, registered_at = 100,
      last_health_check = Some 100, is_healthy = True\<rparr>"

definition hello_request :: agent_test_request where
  "hello_request =
     \<lparr>message = ''hello'', openai_api_key = None, openai_base_url = None,
      openai_model = None, tavily_api_key = None, custom_headers = None\<rparr>"

text \<open>A remote agent that refuses the connection.\<close>

definition refused_post :: "string \<Rightarrow> json \<Rightarrow> headers \<Rightarrow> response outcome" where
  "refused_post u body h = Raises (HTTPError ''All connection attempts failed'')"

text \<open>A response with status 200 whose body is not JSON.\<close>

definition plain_text_response :: response where
  "plain_text_response =
     \<lparr>status_code = 200, status_error = [],
      json_body = Inl ''Expecting value: line 1 column 1 (char 0)''\<rparr>"

definition plain_text_post :: "string \<Rightarrow> json \<Rightarrow> headers \<Rightarrow> response outcome" where
  "plain_text_post u body h = Returns plain_text_response"

definition plain_text_get :: "string \<Rightarrow> response outcome" where
  "plain_text_get u = Returns plain_text_response"

text \<open>A remote agent that answers the streamed POST with status 500 and body \<^verbatim>\<open>boom\<close>.\<close>

definition boom_stream :: "string \<Rightarrow> json \<Rightarrow> headers \<Rightarrow> stream_response outcome" where
  "boom_stream u body h =
     Returns \<lparr>stream_status_code = 500, body_text = Returns ''boom'', lines = [],
              lines_error = None\<rparr>"

text \<open>The registering user of the examples.\<close>

definition alice :: user where
  "alice = \<lparr>uid = 7, username = ''alice''\<rparr>"

text \<open>
  The card endpoint of the agent at \<^verbatim>\<open>http://agent.example/a\<close>, answering with
  \<^verbatim>\<open>{"name":"Echo","skills":[{"id":"s1","name":"echo"}]}\<close>.
\<close>

definition echo_card :: json where
  "echo_card =
     JObj [(''name'', JStr ''Echo''),
           (''skills'', JArr [JObj [(''id'', JStr ''s1''), (''name'', JStr ''echo'')]])]"

definition echo_get :: "string \<Rightarrow> response outcome" where
  "echo_get u = Returns \<lparr>status_code = 200, status_error = [], json_body = Inr echo_card\<rparr>"


text \<open>A card endpoint that refuses the connection.\<close>

definition refused_get :: "string \<Rightarrow> response outcome" where
  "refused_get u = Raises (HTTPError ''All connection attempts failed'')"

text \<open>
  A request with the custom headers \<^verbatim>\<open>{"foo": "bar", "X-Foo": "bar"}\<close>, and a request whose
  custom header \<^verbatim>\<open>OpenAI-Model\<close> meets the dedicated field \<^verbatim>\<open>openai_model\<close>.
\<close>

definition custom_request :: agent_test_request where
  "custom_request = hello_request\<lparr>custom_headers := Some [(''foo'', ''bar''), (''X-Foo'', ''bar'')]\<rparr>"

definition override_request :: agent_test_request where
  "override_request =
     hello_request\<lparr>openai_model := Some ''gpt-4'',
                    custom_headers := Some [(''OpenAI-Model'', ''local'')]\<rparr>"

text \<open>
  A remote agent that answers the streamed POST with status 500 and a body that is not valid
  UTF-8, so that decoding it raises a \<^verbatim>\<open>UnicodeDecodeError\<close>.
\<close>

definition undecodable_stream ::
  "string \<Rightarrow> json \<Rightarrow> headers \<Rightarrow> stream_response outcome" where
  "undecodable_stream u body h =
     Returns \<lparr>stream_status_code = 500, body_text = Raises (Exception ''invalid start byte''),
              lines = [], lines_error = None\<rparr>"

text \<open>
  A request whose custom headers \<^verbatim>\<open>{"dup": "1", "X-dup": "2"}\<close> are sent under one name,
  and a request whose custom headers name \<^verbatim>\<open>Content-Type\<close> and \<^verbatim>\<open>Accept\<close>.
\<close>

definition dup_request :: agent_test_request where
  "dup_request = hello_request\<lparr>custom_headers := Some [(''dup'', ''1''), (''X-dup'', ''2'')]\<rparr>"

definition plain_names_request :: agent_test_request where
  "plain_names_request =
     hello_request\<lparr>custom_headers :=
       Some [(''Content-Type'', ''text/plain''), (''Accept'', ''text/plain'')]\<rparr>"

text \<open>
  A request whose custom headers \<^verbatim>\<open>{"OpenAI-Model": "a", "X-OpenAI-Model": "b"}\<close> are both
  sent as \<^verbatim>\<open>X-OpenAI-Model\<close>.
\<close>

definition clash_request :: agent_test_request where
  "clash_request =
     hello_request\<lparr>custom_headers := Some [(''OpenAI-Model'', ''a''), (''X-OpenAI-Model'', ''b'')]\<rparr>"

subsection \<open>Abbreviations used in the statements\<close>


text \<open>The custom entries under the header names they are sent as.\<close>

abbreviation (input) sent_as :: "(string \<times> string) list \<Rightarrow> (string \<times> string) list" where
  "sent_as items \<equiv> map (\<lambda>p. (header_key (fst p), snd p)) items"

section \<open>Properties\<close>

subsection \<open>Rows and primary keys\<close>

lemma scalar_one_or_none_Some:
  "scalar_one_or_none rows = Inr (Some r) \<longleftrightarrow> rows = [r]"
  by (auto simp: scalar_one_or_none_def split: list.splits)

lemma scalar_one_or_none_None:
  "scalar_one_or_none rows = Inr None \<longleftrightarrow> rows = []"
  by (auto simp: scalar_one_or_none_def split: list.splits)

lemma select_agent_by_id_key:
  assumes "select_agent_by_id db aid = Inr (Some a)"
  shows "agent_id a = aid"
proof -
  from assms have "filter (\<lambda>r. agent_id r = aid) db = [a]"
    by (simp add: select_agent_by_id_def scalar_one_or_none_Some)
  then have "a \<in> set (filter (\<lambda>r. agent_id r = aid) db)"
    by simp
  then show ?thesis by simp
qed

lemma filter_commit:
  assumes "agent_id a' = aid"
  shows "filter (\<lambda>r. agent_id r = aid) (commit db a') =
         map (\<lambda>r. a') (filter (\<lambda>r. agent_id r = aid) db)"
  using assms by (induction db) (auto simp: commit_def)

text \<open>After the commit, the select by primary key finds the mutated row.\<close>

lemma select_agent_by_id_commit:
  assumes "select_agent_by_id db aid = Inr (Some a)" and "agent_id a' = aid"
  shows "select_agent_by_id (commit db a') aid = Inr (Some a')"
proof -
  from assms(1) have "filter (\<lambda>r. agent_id r = aid) db = [a]"
    by (simp add: select_agent_by_id_def scalar_one_or_none_Some)
  with assms(2) have "filter (\<lambda>r. agent_id r = aid) (commit db a') = [a']"
    by (simp add: filter_commit)
  then show ?thesis
    by (simp add: select_agent_by_id_def scalar_one_or_none_Some)
qed

subsection \<open>Synchronous invoke\<close>

lemma test_agent_found:
  assumes "select_agent_by_id db aid = Inr (Some a)"
  shows "test_agent post now mid db aid req =
     (case post_and_parse post (url a)
             (payload ''test-1'' ''message/send'' mid (message req)) (test_headers req) of
        Returns response_data \<Rightarrow>
          (Inr (JObj [(''status'', JStr ''success''), (''response'', response_data)]),
           commit db (a\<lparr>is_healthy := True, last_health_check := Some now\<rparr>))
      | Raises (HTTPError m) \<Rightarrow>
          (Inl (HTTPException 502 (''Agent communication failed: '' @ m)),
           commit db (a\<lparr>is_healthy := False, last_health_check := Some now\<rparr>))
      | Raises (Exception m) \<Rightarrow>
          (Inl (HTTPException 500 (''Unexpected error: '' @ m)),
           commit db (a\<lparr>is_healthy := False, last_health_check := Some now\<rparr>)))"
  using assms by (simp add: test_agent_def)

text \<open>
  Claim C1. Every call of \<^verbatim>\<open>test_agent\<close> on an existing agent persists the pair
  \<^verbatim>\<open>(is_healthy, last_health_check)\<close> together: the row of the agent after the call is
  the row before it with \<^verbatim>\<open>is_healthy\<close> set to whether the call succeeded and
  \<^verbatim>\<open>last_health_check\<close> set to now, every other field and every other row as before.
  The call fails exactly when the POST, \<^verbatim>\<open>raise_for_status\<close> or \<^verbatim>\<open>resp.json()\<close>
  raises.
\<close>

theorem test_agent_health_pair:
  assumes "select_agent_by_id db aid = Inr (Some a)"
    and "test_agent post now mid db aid req = (res, db')"
  shows "db' = commit db (a\<lparr>is_healthy := \<not> isl res, last_health_check := Some now\<rparr>)
       \<and> select_agent_by_id db' aid =
           Inr (Some (a\<lparr>is_healthy := \<not> isl res, last_health_check := Some now\<rparr>))
       \<and> (isl res \<longleftrightarrow>
            (\<exists>e. post_and_parse post (url a)
                   (payload ''test-1'' ''message/send'' mid (message req)) (test_headers req)
                 = Raises e))"
proof -
  let ?a' = "a\<lparr>is_healthy := \<not> isl res, last_health_check := Some now\<rparr>"
  have key: "agent_id ?a' = aid"
    using assms(1) by (simp add: select_agent_by_id_key)
  have upd: "db' = commit db ?a'"
    and fail: "isl res \<longleftrightarrow>
            (\<exists>e. post_and_parse post (url a)
                   (payload ''test-1'' ''message/send'' mid (message req)) (test_headers req)
                 = Raises e)"
    using assms(2) unfolding test_agent_found [OF assms(1)]
    by (auto split: outcome.splits exn.splits)
  from upd select_agent_by_id_commit [OF assms(1) key] show ?thesis
    using fail by simp
qed

theorem test_agent_health_pair_witness:
  "select_agent_by_id [echo_agent] 1 = Inr (Some echo_agent)
   \<and> test_agent refused_post 200 ''m-1'' [echo_agent] 1 hello_request =
       (Inl (HTTPException 502 ''Agent communication failed: All connection attempts failed''),
        [echo_agent\<lparr>is_healthy := False, last_health_check := Some 200\<rparr>])
   \<and> [echo_agent\<lparr>is_healthy := False, last_health_check := Some 200\<rparr>] =
       commit [echo_agent] (echo_agent\<lparr>is_healthy := False, last_health_check := Some 200\<rparr>)
   \<and> select_agent_by_id [echo_agent\<lparr>is_healthy := False, last_health_check := Some 200\<rparr>] 1 =
       Inr (Some (echo_agent\<lparr>is_healthy := False, last_health_check := Some 200\<rparr>))"
proof -
  have found: "select_agent_by_id [echo_agent] 1 = Inr (Some echo_agent)"
    by (simp add: select_agent_by_id_def scalar_one_or_none_def echo_agent_def)
  have run: "test_agent refused_post 200 ''m-1'' [echo_agent] 1 hello_request =
      (Inl (HTTPException 502 ''Agent communication failed: All connection attempts failed''),
       [echo_agent\<lparr>is_healthy := False, last_health_check := Some 200\<rparr>])"
    by (simp add: test_agent_def select_agent_by_id_def scalar_one_or_none_def echo_agent_def
        post_and_parse_def refused_post_def commit_def)
  note pair = test_agent_health_pair [OF found run, simplified]
  from pair found run show ?thesis
    by blast
qed

text \<open>
  Claim C9. When the remote agent answers the POST with a 2xx status and a body that does not
  parse as JSON, \<^verbatim>\<open>test_agent\<close> does not succeed: it raises the 500
  \<^verbatim>\<open>Unexpected error\<close> carrying the decoder's message, and the committed row has
  \<^verbatim>\<open>is_healthy = False\<close> and \<^verbatim>\<open>last_health_check\<close> set to now.
\<close>

theorem test_agent_unparsable_body:
  assumes "select_agent_by_id db aid = Inr (Some a)"
    and "post (url a) (payload ''test-1'' ''message/send'' mid (message req)) (test_headers req)
           = Returns resp"
    and "200 \<le> status_code resp" and "status_code resp \<le> 299"
    and "json_body resp = Inl m"
  shows "test_agent post now mid db aid req =
           (Inl (HTTPException 500 (''Unexpected error: '' @ m)),
            commit db (a\<lparr>is_healthy := False, last_health_check := Some now\<rparr>))"
  using assms(2-5) unfolding test_agent_found [OF assms(1)]
  by (simp add: post_and_parse_def raise_for_status_def)

theorem test_agent_unparsable_body_witness:
  "select_agent_by_id [echo_agent] 1 = Inr (Some echo_agent)
   \<and> plain_text_post (url echo_agent)
        (payload ''test-1'' ''message/send'' ''m-1'' (message hello_request))
        (test_headers hello_request) = Returns plain_text_response
   \<and> 200 \<le> status_code plain_text_response \<and> status_code plain_text_response \<le> 299
   \<and> json_body plain_text_response = Inl ''Expecting value: line 1 column 1 (char 0)''
   \<and> test_agent plain_text_post 200 ''m-1'' [echo_agent] 1 hello_request =
       (Inl (HTTPException 500 ''Unexpected error: Expecting value: line 1 column 1 (char 0)''),
        [echo_agent\<lparr>is_healthy := False, last_health_check := Some 200\<rparr>])"
proof -
  have found: "select_agent_by_id [echo_agent] 1 = Inr (Some echo_agent)"
    by (simp add: select_agent_by_id_def scalar_one_or_none_def echo_agent_def)
  have sent: "plain_text_post (url echo_agent)
        (payload ''test-1'' ''message/send'' ''m-1'' (message hello_request))
        (test_headers hello_request) = Returns plain_text_response"
    by (simp add: plain_text_post_def)
  have ok: "200 \<le> status_code plain_text_response" "status_code plain_text_response \<le> 299"
    by (simp_all add: plain_text_response_def)
  have body: "json_body plain_text_response = Inl ''Expecting value: line 1 column 1 (char 0)''"
    by (simp add: plain_text_response_def)
  have row: "commit [echo_agent] (echo_agent\<lparr>is_healthy := False, last_health_check := Some 200\<rparr>)
      = [echo_agent\<lparr>is_healthy := False, last_health_check := Some 200\<rparr>]"
    by (simp add: commit_def)
  note run = test_agent_unparsable_body
    [where post = plain_text_post and now = 200, OF found sent ok(1) ok(2) body]
  from run found sent ok body row show ?thesis by simp
qed

subsection \<open>Health probe\<close>

lemma check_agent_health_found:
  assumes "select_agent_by_id db aid = Inr (Some a)"
  shows "check_agent_health get now db aid =
     (case get_and_check get (url a @ ''/.well-known/agent.json'') of
        Returns _ \<Rightarrow>
          (Inr (health_result ''healthy'' (url a)),
           commit db (a\<lparr>is_healthy := True, last_health_check := Some now\<rparr>))
      | Raises _ \<Rightarrow>
          (Inr (health_result ''unhealthy'' (url a)),
           commit db (a\<lparr>is_healthy := False, last_health_check := Some now\<rparr>)))"
  using assms by (simp add: check_agent_health_def)




text \<open>
  Claim C5, as stated, fails: the probe does not parse the body. Against an agent whose card
  endpoint answers 200 with a body that is not JSON, the probe reports \<^verbatim>\<open>healthy\<close> and
  commits \<^verbatim>\<open>is_healthy = True\<close> on a row that was unhealthy before.
\<close>

theorem check_agent_health_ignores_body:
  "json_body plain_text_response = Inl ''Expecting value: line 1 column 1 (char 0)''
   \<and> check_agent_health plain_text_get 200
        [echo_agent\<lparr>is_healthy := False\<rparr>] 1 =
       (Inr (JObj [(''status'', JStr ''healthy''), (''url'', JStr ''http://agent.example/a'')]),
        [echo_agent\<lparr>is_healthy := True, last_health_check := Some 200\<rparr>])"
  by (simp add: check_agent_health_def select_agent_by_id_def scalar_one_or_none_def
      echo_agent_def get_and_check_def plain_text_get_def plain_text_response_def
      raise_for_status_def health_result_def commit_def)

text \<open>
  Claim C5, amended. A probe of an existing agent GETs the card URL and looks at the status
  only: a response with a 2xx status sets \<^verbatim>\<open>is_healthy = True\<close> whatever
  \<^verbatim>\<open>resp.json()\<close> would give, and a response with another status or an exception of
  the GET sets \<^verbatim>\<open>is_healthy = False\<close>. In every case \<^verbatim>\<open>last_health_check\<close> is
  set to now and the row is committed, every other field as before.
\<close>

theorem check_agent_health_status_only:
  assumes "select_agent_by_id db aid = Inr (Some a)"
    and "card_url = url a @ ''/.well-known/agent.json''"
  shows "(get card_url = Returns resp
            \<and> 200 \<le> status_code resp \<and> status_code resp \<le> 299 \<longrightarrow>
            check_agent_health get now db aid =
              (Inr (JObj [(''status'', JStr ''healthy''), (''url'', JStr (url a))]),
               commit db (a\<lparr>is_healthy := True, last_health_check := Some now\<rparr>)))
       \<and> (get card_url = Returns resp
            \<and> \<not> (200 \<le> status_code resp \<and> status_code resp \<le> 299) \<longrightarrow>
            check_agent_health get now db aid =
              (Inr (JObj [(''status'', JStr ''unhealthy''), (''url'', JStr (url a))]),
               commit db (a\<lparr>is_healthy := False, last_health_check := Some now\<rparr>)))
       \<and> (get card_url = Raises e \<longrightarrow>
            check_agent_health get now db aid =
              (Inr (JObj [(''status'', JStr ''unhealthy''), (''url'', JStr (url a))]),
               commit db (a\<lparr>is_healthy := False, last_health_check := Some now\<rparr>)))"
  unfolding check_agent_health_found [OF assms(1)] assms(2)
  by (simp add: get_and_check_def raise_for_status_def health_result_def)

theorem check_agent_health_status_only_witness:
  "select_agent_by_id [echo_agent\<lparr>is_healthy := False\<rparr>] 1
     = Inr (Some (echo_agent\<lparr>is_healthy := False\<rparr>))
   \<and> plain_text_get ''http://agent.example/a/.well-known/agent.json''
       = Returns plain_text_response
   \<and> 200 \<le> status_code plain_text_response \<and> status_code plain_text_response \<le> 299
   \<and> json_body plain_text_response = Inl ''Expecting value: line 1 column 1 (char 0)''
   \<and> check_agent_health plain_text_get 200 [echo_agent\<lparr>is_healthy := False\<rparr>] 1 =
       (Inr (JObj [(''status'', JStr ''healthy''), (''url'', JStr ''http://agent.example/a'')]),
        [echo_agent\<lparr>is_healthy := True, last_health_check := Some 200\<rparr>])"
proof -
  let ?a = "echo_agent\<lparr>is_healthy := False\<rparr>"
  have found: "select_agent_by_id [?a] 1 = Inr (Some ?a)"
    by (simp add: select_agent_by_id_def scalar_one_or_none_def echo_agent_def)
  have card_url: "''http://agent.example/a/.well-known/agent.json''
      = url ?a @ ''/.well-known/agent.json''"
    by (simp add: echo_agent_def)
  have got: "plain_text_get ''http://agent.example/a/.well-known/agent.json''
       = Returns plain_text_response"
    by (simp add: plain_text_get_def)
  have ok: "200 \<le> status_code plain_text_response \<and> status_code plain_text_response \<le> 299"
    by (simp add: plain_text_response_def)
  have body: "json_body plain_text_response = Inl ''Expecting value: line 1 column 1 (char 0)''"
    by (simp add: plain_text_response_def)
  have row: "commit [?a] (?a\<lparr>is_healthy := True, last_health_check := Some 200\<rparr>)
      = [echo_agent\<lparr>is_healthy := True, last_health_check := Some 200\<rparr>]"
    by (simp add: commit_def)
  have u: "url ?a = ''http://agent.example/a''"
    by (simp add: echo_agent_def)
  note run = check_agent_health_status_only
    [where get = plain_text_get and resp = plain_text_response and now = 200,
     OF found card_url]
  from run found got ok body row u show ?thesis
    by simp
qed


subsection \<open>Streaming invoke\<close>

text \<open>
  Claim C3, as stated, fails: the event carries the body and the status code only when the body
  can be read and decoded. A remote agent that answers 500 with a body that is not valid UTF-8
  makes \<^verbatim>\<open>error_text.decode()\<close> raise inside the generator, and the one event is the
  \<^verbatim>\<open>unexpected_error\<close> event, which has no \<^verbatim>\<open>status_code\<close>.
\<close>

theorem stream_agent_undecodable_body:
  "stream_agent undecodable_stream ''m-1'' [echo_agent] 1 hello_request =
     (Inr [Data (JObj [(''error'', JStr ''invalid start byte''),
                       (''type'', JStr ''unexpected_error'')])],
      [echo_agent])"
  by (simp add: stream_agent_def select_agent_by_id_def scalar_one_or_none_def echo_agent_def
      event_generator_def undecodable_stream_def)

text \<open>
  Claim C3, amended. When the streamed POST to an existing agent is answered with a status that
  is not 2xx, the generator yields exactly one event and ends, and the table is as before. The
  event carries \<^verbatim>\<open>{"error": body text, "status_code": status}\<close> when the body is read and
  decodes to text; when reading the body raises an \<^verbatim>\<open>httpx.HTTPError\<close> it carries
  \<^verbatim>\<open>{"error": message, "type": "connection_error"}\<close>, and when reading or decoding raises
  anything else it carries \<^verbatim>\<open>{"error": message, "type": "unexpected_error"}\<close>.
\<close>

theorem stream_agent_error_status:
  assumes "select_agent_by_id db aid = Inr (Some a)"
    and "stream (url a) (payload ''stream-1'' ''message/stream'' mid (message req))
           (stream_headers req) = Returns resp"
    and "\<not> (200 \<le> stream_status_code resp \<and> stream_status_code resp \<le> 299)"
  shows "(\<forall>error_text. body_text resp = Returns error_text \<longrightarrow>
            stream_agent stream mid db aid req =
              (Inr [Data (JObj [(''error'', JStr error_text),
                                (''status_code'', JNum (stream_status_code resp))])], db))
       \<and> (\<forall>m. body_text resp = Raises (HTTPError m) \<longrightarrow>
            stream_agent stream mid db aid req =
              (Inr [Data (JObj [(''error'', JStr m), (''type'', JStr ''connection_error'')])],
               db))
       \<and> (\<forall>m. body_text resp = Raises (Exception m) \<longrightarrow>
            stream_agent stream mid db aid req =
              (Inr [Data (JObj [(''error'', JStr m), (''type'', JStr ''unexpected_error'')])],
               db))
       \<and> (\<exists>c. stream_agent stream mid db aid req = (Inr [c], db))"
  using assms
  by (auto simp: stream_agent_def event_generator_def split: outcome.splits exn.splits)

theorem stream_agent_error_status_witness:
  "select_agent_by_id [echo_agent] 1 = Inr (Some echo_agent)
   \<and> stream_agent boom_stream ''m-1'' [echo_agent] 1 hello_request =
       (Inr [Data (JObj [(''error'', JStr ''boom''), (''status_code'', JNum 500)])], [echo_agent])"
proof -
  have found: "select_agent_by_id [echo_agent] 1 = Inr (Some echo_agent)"
    by (simp add: select_agent_by_id_def scalar_one_or_none_def echo_agent_def)
  let ?resp = "\<lparr>stream_status_code = 500, body_text = Returns ''boom'', lines = [],
              lines_error = None\<rparr>"
  have opened: "boom_stream (url echo_agent)
      (payload ''stream-1'' ''message/stream'' ''m-1'' (message hello_request))
      (stream_headers hello_request) = Returns ?resp"
    by (simp add: boom_stream_def)
  have status: "\<not> (200 \<le> stream_status_code ?resp \<and> stream_status_code ?resp \<le> 299)"
    by simp
  note run = stream_agent_error_status [where stream = boom_stream, OF found opened status]
  from run found show ?thesis
    by auto
qed


subsection \<open>Registration\<close>

lemma rstrip_snoc: "rstrip c (s @ [c]) = rstrip c s"
  by (simp add: rstrip_def)

lemma new_agent_Inr:
  assumes "new_agent agent_card u usr now = Inr a"
  shows "\<exists>d sk. agent_card = JObj d \<and> extract_skills d = Inr sk \<and>
           a = \<lparr>agent_id = 0, url = u, name = dict_get d ''name'',
                description = dict_get d ''description'', version = dict_get d ''version'',
                skills = sk, provider = extract_provider d,
                documentation_url = dict_get d ''documentationUrl'', user_id = uid usr,
                registered_at = now, last_health_check = Some now, is_healthy = True\<rparr>"
  using assms by (cases agent_card) (auto split: sum.splits)

lemma insert_agent_Inr:
  assumes "insert_agent db a0 = Inr a"
  shows "agent_id a = new_id db \<and> url a = url a0 \<and> skills a = skills a0
       \<and> user_id a = user_id a0 \<and> registered_at a = registered_at a0
       \<and> last_health_check a = last_health_check a0 \<and> is_healthy a = is_healthy a0
       \<and> text_column (name a0) = Inr (name a)
       \<and> text_column (description a0) = Inr (description a)
       \<and> text_column (version a0) = Inr (version a)
       \<and> text_column (provider a0) = Inr (provider a)
       \<and> text_column (documentation_url a0) = Inr (documentation_url a)"
  using assms by (auto simp: insert_agent_def split: sum.splits)

lemma register_agent_Inr:
  assumes "register_agent get now usr db req_url = (Inr r, db')"
  shows "\<exists>agent_card a0 a.
           select_agent_by_url db (rstrip CHR ''/'' req_url) = Inr None
         \<and> fetch_card get (rstrip CHR ''/'' req_url @ ''/.well-known/agent.json'')
             = Returns agent_card
         \<and> new_agent agent_card (rstrip CHR ''/'' req_url) usr now = Inr a0
         \<and> insert_agent db a0 = Inr a
         \<and> db' = db @ [a]
         \<and> r = response_of a (username usr)"
  using assms
  by (auto simp: register_agent_def Let_def
      split: sum.splits option.splits outcome.splits exn.splits)

lemma register_agent_existing:
  assumes "select_agent_by_url db (rstrip CHR ''/'' req_url) = Inr (Some a)"
  shows "register_agent get now usr db req_url =
           (Inl (HTTPException 400 ''Agent already registered''), db)"
  using assms by (simp add: register_agent_def)


text \<open>
  Claim C2. Registering \<^verbatim>\<open>u + "/"\<close> is the same operation as registering
  \<^verbatim>\<open>u\<close>, since the trailing slash is stripped before the uniqueness check. After a
  successful registration of \<^verbatim>\<open>u\<close> the table holds one new row with the stripped URL,
  which the select for either spelling finds, and a second registration of \<^verbatim>\<open>u\<close> or of
  \<^verbatim>\<open>u + "/"\<close> (by any user, at any time, whatever the card endpoint answers) raises
  400 \<^verbatim>\<open>Agent already registered\<close> and leaves the table, and so the number of rows, as
  it was.
\<close>

theorem register_agent_trailing_slash_duplicate:
  "register_agent get now usr db (u @ ''/'') = register_agent get now usr db u
   \<and> (register_agent get now usr db u = (Inr r, db') \<longrightarrow>
        (\<exists>a. db' = db @ [a] \<and> url a = rstrip CHR ''/'' u
            \<and> select_agent_by_url db' (rstrip CHR ''/'' u) = Inr (Some a)
            \<and> select_agent_by_url db' (rstrip CHR ''/'' (u @ ''/'')) = Inr (Some a))
      \<and> register_agent get2 now2 usr2 db' u =
           (Inl (HTTPException 400 ''Agent already registered''), db')
      \<and> register_agent get2 now2 usr2 db' (u @ ''/'') =
           (Inl (HTTPException 400 ''Agent already registered''), db')
      \<and> length (snd (register_agent get2 now2 usr2 db' u)) = length db')"
proof (intro conjI impI)
  have strip: "rstrip CHR ''/'' (u @ ''/'') = rstrip CHR ''/'' u"
    by (rule rstrip_snoc)
  show same: "register_agent get now usr db (u @ ''/'') = register_agent get now usr db u"
    by (simp only: register_agent_def strip)
  assume first: "register_agent get now usr db u = (Inr r, db')"
  from register_agent_Inr [OF first] obtain agent_card a0 a1 where
    fresh: "select_agent_by_url db (rstrip CHR ''/'' u) = Inr None"
    and made: "new_agent agent_card (rstrip CHR ''/'' u) usr now = Inr a0"
    and stored: "insert_agent db a0 = Inr a1"
    and db': "db' = db @ [a1]"
    by blast
  let ?a = "a1"
  from new_agent_Inr [OF made] have "url a0 = rstrip CHR ''/'' u"
    by auto
  moreover from insert_agent_Inr [OF stored] have "url a1 = url a0"
    by simp
  ultimately have url: "url ?a = rstrip CHR ''/'' u"
    by simp
  from fresh have "filter (\<lambda>r. url r = rstrip CHR ''/'' u) db = []"
    by (simp add: select_agent_by_url_def scalar_one_or_none_None)
  with url db' have found: "select_agent_by_url db' (rstrip CHR ''/'' u) = Inr (Some ?a)"
    by (simp add: select_agent_by_url_def scalar_one_or_none_def)
  with url db' strip
  show "\<exists>a. db' = db @ [a] \<and> url a = rstrip CHR ''/'' u
            \<and> select_agent_by_url db' (rstrip CHR ''/'' u) = Inr (Some a)
            \<and> select_agent_by_url db' (rstrip CHR ''/'' (u @ ''/'')) = Inr (Some a)"
    by simp
  show second: "register_agent get2 now2 usr2 db' u =
           (Inl (HTTPException 400 ''Agent already registered''), db')"
    by (rule register_agent_existing [OF found])
  from found strip
  show "register_agent get2 now2 usr2 db' (u @ ''/'') =
           (Inl (HTTPException 400 ''Agent already registered''), db')"
    by (simp add: register_agent_existing)
  from second show "length (snd (register_agent get2 now2 usr2 db' u)) = length db'"
    by simp
qed

lemma echo_registration:
  "register_agent echo_get 100 alice [] ''http://agent.example/a'' =
     (Inr (response_of echo_agent ''alice''), [echo_agent])"
  by (simp add: register_agent_def Let_def rstrip_def select_agent_by_url_def scalar_one_or_none_def
      fetch_card_def echo_get_def raise_for_status_def echo_card_def extract_skills_def
      dict_get_def extract_provider_def insert_agent_def new_id_def alice_def echo_agent_def
      response_of_def)

theorem register_agent_trailing_slash_duplicate_witness:
  "register_agent echo_get 100 alice [] ''http://agent.example/a'' =
     (Inr (response_of echo_agent ''alice''), [echo_agent])
   \<and> register_agent echo_get 100 alice [] ''http://agent.example/a/'' =
     (Inr (response_of echo_agent ''alice''), [echo_agent])
   \<and> register_agent echo_get 200 alice [echo_agent] ''http://agent.example/a'' =
       (Inl (HTTPException 400 ''Agent already registered''), [echo_agent])
   \<and> register_agent echo_get 200 alice [echo_agent] ''http://agent.example/a/'' =
       (Inl (HTTPException 400 ''Agent already registered''), [echo_agent])"
proof -
  have first: "register_agent echo_get 100 alice [] ''http://agent.example/a'' =
     (Inr (response_of echo_agent ''alice''), [echo_agent])"
    by (rule echo_registration)
  note dup = register_agent_trailing_slash_duplicate
    [where get = echo_get and now = 100 and usr = alice and db = "[]"
       and u = "''http://agent.example/a''" and r = "response_of echo_agent ''alice''"
       and db' = "[echo_agent]" and ?get2.0 = echo_get and ?now2.0 = 200 and ?usr2.0 = alice]
  from dup first show ?thesis
    by simp
qed

lemma register_agent_fetch_raises:
  assumes "select_agent_by_url db (rstrip CHR ''/'' req_url) = Inr None"
    and "fetch_card get (rstrip CHR ''/'' req_url @ ''/.well-known/agent.json'') = Raises e"
  shows "register_agent get now usr db req_url =
           (Inl (HTTPException 400
              (case e of
                 HTTPError m \<Rightarrow>
                   ''Failed to fetch agent card from '' @
                   (rstrip CHR ''/'' req_url @ ''/.well-known/agent.json'') @ '': '' @ m
               | Exception m \<Rightarrow> ''Invalid agent card response: '' @ m)),
            db)"
  using assms by (simp add: register_agent_def Let_def split: exn.splits)

text \<open>
  Claim C8. When the URL is not registered yet and the card fetch fails, the registration raises
  a 400 whose detail ends with the cause, and the table is unchanged. The fetch fails when the
  GET raises (an \<^verbatim>\<open>httpx.HTTPError\<close> such as a refused connection, or any other
  exception), when the status is not 2xx, and when the status is 2xx but the body does not parse
  as JSON.
\<close>

theorem register_agent_fetch_failure:
  assumes "select_agent_by_url db (rstrip CHR ''/'' req_url) = Inr None"
    and "card_url = rstrip CHR ''/'' req_url @ ''/.well-known/agent.json''"
  shows "(get card_url = Raises (HTTPError m) \<longrightarrow>
            register_agent get now usr db req_url =
              (Inl (HTTPException 400
                 (''Failed to fetch agent card from '' @ card_url @ '': '' @ m)), db))
       \<and> (get card_url = Raises (Exception m) \<longrightarrow>
            register_agent get now usr db req_url =
              (Inl (HTTPException 400 (''Invalid agent card response: '' @ m)), db))
       \<and> (get card_url = Returns resp
            \<and> \<not> (200 \<le> status_code resp \<and> status_code resp \<le> 299) \<longrightarrow>
            register_agent get now usr db req_url =
              (Inl (HTTPException 400
                 (''Failed to fetch agent card from '' @ card_url @ '': '' @ status_error resp)),
               db))
       \<and> (get card_url = Returns resp
            \<and> 200 \<le> status_code resp \<and> status_code resp \<le> 299
            \<and> json_body resp = Inl m \<longrightarrow>
            register_agent get now usr db req_url =
              (Inl (HTTPException 400 (''Invalid agent card response: '' @ m)), db))"
proof (intro conjI impI)
  assume "get card_url = Raises (HTTPError m)"
  then have "fetch_card get card_url = Raises (HTTPError m)"
    by (simp add: fetch_card_def)
  with assms register_agent_fetch_raises [of db req_url get "HTTPError m"]
  show "register_agent get now usr db req_url =
      (Inl (HTTPException 400 (''Failed to fetch agent card from '' @ card_url @ '': '' @ m)), db)"
    by simp
next
  assume "get card_url = Raises (Exception m)"
  then have "fetch_card get card_url = Raises (Exception m)"
    by (simp add: fetch_card_def)
  with assms register_agent_fetch_raises [of db req_url get "Exception m"]
  show "register_agent get now usr db req_url =
      (Inl (HTTPException 400 (''Invalid agent card response: '' @ m)), db)"
    by simp
next
  assume "get card_url = Returns resp
      \<and> \<not> (200 \<le> status_code resp \<and> status_code resp \<le> 299)"
  then have "fetch_card get card_url = Raises (HTTPError (status_error resp))"
    by (auto simp: fetch_card_def raise_for_status_def)
  with assms register_agent_fetch_raises [of db req_url get "HTTPError (status_error resp)"]
  show "register_agent get now usr db req_url =
      (Inl (HTTPException 400
         (''Failed to fetch agent card from '' @ card_url @ '': '' @ status_error resp)), db)"
    by simp
next
  assume "get card_url = Returns resp
      \<and> 200 \<le> status_code resp \<and> status_code resp \<le> 299 \<and> json_body resp = Inl m"
  then have "fetch_card get card_url = Raises (Exception m)"
    by (simp add: fetch_card_def raise_for_status_def)
  with assms register_agent_fetch_raises [of db req_url get "Exception m"]
  show "register_agent get now usr db req_url =
      (Inl (HTTPException 400 (''Invalid agent card response: '' @ m)), db)"
    by simp
qed

theorem register_agent_fetch_failure_witness:
  "select_agent_by_url [echo_agent] (rstrip CHR ''/'' ''http://other.example/b/'') = Inr None
   \<and> plain_text_get ''http://other.example/b/.well-known/agent.json'' =
       Returns plain_text_response
   \<and> 200 \<le> status_code plain_text_response \<and> status_code plain_text_response \<le> 299
   \<and> json_body plain_text_response = Inl ''Expecting value: line 1 column 1 (char 0)''
   \<and> register_agent plain_text_get 200 alice [echo_agent] ''http://other.example/b/'' =
       (Inl (HTTPException 400
          ''Invalid agent card response: Expecting value: line 1 column 1 (char 0)''),
        [echo_agent])
   \<and> refused_get ''http://other.example/b/.well-known/agent.json'' =
       Raises (HTTPError ''All connection attempts failed'')
   \<and> register_agent refused_get 200 alice [echo_agent] ''http://other.example/b/'' =
       (Inl (HTTPException 400
          (''Failed to fetch agent card from http://other.example/b/.well-known/agent.json: '' @
           ''All connection attempts failed'')),
        [echo_agent])"
proof -
  have strip: "rstrip CHR ''/'' ''http://other.example/b/'' = ''http://other.example/b''"
    by (simp add: rstrip_def)
  have fresh: "select_agent_by_url [echo_agent] (rstrip CHR ''/'' ''http://other.example/b/'')
      = Inr None"
    by (simp add: strip select_agent_by_url_def scalar_one_or_none_def echo_agent_def)
  have card_url: "''http://other.example/b/.well-known/agent.json'' =
      rstrip CHR ''/'' ''http://other.example/b/'' @ ''/.well-known/agent.json''"
    by (simp add: strip)
  have got: "plain_text_get ''http://other.example/b/.well-known/agent.json'' =
       Returns plain_text_response"
    by (simp add: plain_text_get_def)
  have ok: "200 \<le> status_code plain_text_response \<and> status_code plain_text_response \<le> 299"
    by (simp add: plain_text_response_def)
  have body: "json_body plain_text_response = Inl ''Expecting value: line 1 column 1 (char 0)''"
    by (simp add: plain_text_response_def)
  have refused: "refused_get ''http://other.example/b/.well-known/agent.json'' =
       Raises (HTTPError ''All connection attempts failed'')"
    by (simp add: refused_get_def)
  note unparsable = register_agent_fetch_failure
    [where get = plain_text_get and resp = plain_text_response and now = 200 and usr = alice
       and m = "''Expecting value: line 1 column 1 (char 0)''", OF fresh card_url]
  note unreachable = register_agent_fetch_failure
    [where get = refused_get and now = 200 and usr = alice
       and m = "''All connection attempts failed''", OF fresh card_url]
  from unparsable unreachable fresh got ok body refused show ?thesis
    by simp
qed







subsection \<open>Outbound headers\<close>

text \<open>
  The prefix test \<^verbatim>\<open>key.lower().startswith("x-")\<close> holds exactly for the keys that begin
  with \<^verbatim>\<open>X-\<close> or \<^verbatim>\<open>x-\<close>.
\<close>

lemma of_char_eq_numeral_x: "(of_char c :: nat) = 88 \<longleftrightarrow> c = CHR ''X''"
proof -
  have "(of_char c :: nat) = of_char CHR ''X'' \<longleftrightarrow> c = CHR ''X''"
    by (rule of_char_eq_iff)
  then show ?thesis by simp
qed

lemma lower_char_x: "lower_char c = CHR ''x'' \<longleftrightarrow> c = CHR ''x'' \<or> c = CHR ''X''"
proof (cases "65 \<le> (of_char c :: nat) \<and> (of_char c :: nat) \<le> 90")
  case True
  then have "take_bit 8 ((of_char c :: nat) + 32) = of_char c + 32"
    by (simp add: take_bit_nat_eq_self_iff)
  with True have "lower_char c = CHR ''x'' \<longleftrightarrow> (of_char c :: nat) = 88"
    by (auto simp: lower_char_def char_of_eq_iff)
  moreover from True have "c \<noteq> CHR ''x''" by auto
  ultimately show ?thesis by (simp add: of_char_eq_numeral_x)
next
  case False
  then have "lower_char c = c" by (auto simp: lower_char_def)
  moreover from False have "c \<noteq> CHR ''X''" by auto
  ultimately show ?thesis by simp
qed

lemma lower_char_dash: "lower_char c = CHR ''-'' \<longleftrightarrow> c = CHR ''-''"
proof (cases "65 \<le> (of_char c :: nat) \<and> (of_char c :: nat) \<le> 90")
  case True
  then have "take_bit 8 ((of_char c :: nat) + 32) = of_char c + 32"
    by (simp add: take_bit_nat_eq_self_iff)
  with True have "lower_char c \<noteq> CHR ''-''"
    by (auto simp: lower_char_def char_of_eq_iff)
  moreover from True have "c \<noteq> CHR ''-''" by auto
  ultimately show ?thesis by simp
next
  case False
  then have "lower_char c = c" by (auto simp: lower_char_def)
  then show ?thesis by simp
qed

lemma startswith_lower_x_dash:
  "startswith (lower key) ''x-'' \<longleftrightarrow>
     (\<exists>rest. key = CHR ''X'' # CHR ''-'' # rest \<or> key = CHR ''x'' # CHR ''-'' # rest)"
proof (cases key)
  case Nil
  then show ?thesis by (simp add: startswith_def lower_def)
next
  case (Cons c cs)
  show ?thesis
  proof (cases cs)
    case Nil
    with Cons show ?thesis by (simp add: startswith_def lower_def)
  next
    case (Cons d ds)
    with \<open>key = c # cs\<close> show ?thesis
      by (auto simp: startswith_def lower_def lower_char_x lower_char_dash)
  qed
qed

text \<open>
  Every name a custom entry is sent as begins with \<^verbatim>\<open>X-\<close> or \<^verbatim>\<open>x-\<close>, so no custom
  entry is sent as \<^verbatim>\<open>Content-Type\<close> or \<^verbatim>\<open>Accept\<close>.
\<close>

lemma header_key_never_plain:
  "header_key key \<noteq> ''Content-Type'' \<and> header_key key \<noteq> ''Accept''"
  by (auto simp: header_key_def startswith_lower_x_dash)

lemma map_of_setitem: "map_of (setitem k v h) = (map_of h)(k \<mapsto> v)"
  by (induction h) (auto simp: fun_eq_iff)

text \<open>
  The headers after the loop: a name that some custom entry is sent as carries the value of the
  last such entry, every other name keeps what it had before the loop.
\<close>

lemma map_of_add_custom_headers:
  "map_of (add_custom_headers items h) n =
     (case map_of (rev (sent_as items)) n of
        Some v \<Rightarrow> Some v
      | None \<Rightarrow> map_of h n)"
proof (induction items arbitrary: h)
  case Nil
  then show ?case by simp
next
  case (Cons p items)
  obtain key val where p: "p = (key, val)" by (cases p)
  show ?case
    unfolding p
    by (simp add: Cons.IH map_of_setitem map_add_def split: option.splits)
qed

lemma map_of_build_headers:
  assumes "custom_headers req = Some items"
  shows "map_of (build_headers initial req) n =
     (case map_of (rev (sent_as items)) n of
        Some v \<Rightarrow> Some v
      | None \<Rightarrow> map_of (build_headers initial (req\<lparr>custom_headers := None\<rparr>)) n)"
proof -
  have fixed: "build_headers initial (req\<lparr>custom_headers := None\<rparr>) =
      set_if_present ''X-Tavily-API-Key'' (tavily_api_key req)
        (set_if_present ''X-OpenAI-Model'' (openai_model req)
          (set_if_present ''X-OpenAI-Base-URL'' (openai_base_url req)
            (set_if_present ''X-OpenAI-API-Key'' (openai_api_key req) initial)))"
    by (simp add: build_headers_def)
  show ?thesis
    unfolding fixed using assms
    by (simp add: build_headers_def Let_def map_of_add_custom_headers)
qed

lemma map_of_rev_last:
  assumes "n \<in> fst ` set xs"
  shows "map_of (rev xs) n = Some (snd (last (filter (\<lambda>p. fst p = n) xs)))"
  using assms
proof (induction xs rule: rev_induct)
  case Nil
  then show ?case by simp
next
  case (snoc p xs)
  show ?case
  proof (cases "fst p = n")
    case True
    then show ?thesis by (cases p) simp
  next
    case False
    with snoc.prems have "n \<in> fst ` set xs" by auto
    with snoc.IH False show ?thesis by (cases p) simp
  qed
qed

lemma filter_sent_as:
  "filter (\<lambda>p. fst p = n) (sent_as items) =
     sent_as (filter (\<lambda>p. header_key (fst p) = n) items)"
  by (induction items) simp_all

text \<open>Of the custom entries sent under one name, the last one gives the header its value.\<close>

lemma build_headers_last_wins:
  assumes "custom_headers req = Some items" and "\<exists>p \<in> set items. header_key (fst p) = n"
  shows "map_of (build_headers initial req) n =
           Some (snd (last (filter (\<lambda>p. header_key (fst p) = n) items)))"
proof -
  from assms(2) have some: "filter (\<lambda>p. header_key (fst p) = n) items \<noteq> []"
    by (simp add: filter_empty_conv)
  from assms(2) have "n \<in> fst ` set (sent_as items)"
    by force
  then have "map_of (rev (sent_as items)) n =
      Some (snd (last (filter (\<lambda>p. fst p = n) (sent_as items))))"
    by (rule map_of_rev_last)
  also have "snd (last (filter (\<lambda>p. fst p = n) (sent_as items))) =
      snd (last (filter (\<lambda>p. header_key (fst p) = n) items))"
    using some by (simp add: filter_sent_as last_map)
  finally show ?thesis
    by (simp add: map_of_build_headers [OF assms(1)])
qed

text \<open>A name that no custom entry is sent under keeps what the fixed statements gave it.\<close>

lemma build_headers_untouched:
  assumes "custom_headers req = Some items" and "\<forall>p \<in> set items. header_key (fst p) \<noteq> n"
  shows "map_of (build_headers initial req) n =
           map_of (build_headers initial (req\<lparr>custom_headers := None\<rparr>)) n"
proof -
  from assms(2) have "n \<notin> fst ` set (rev (sent_as items))"
    by force
  then have "map_of (rev (sent_as items)) n = None"
    by (simp add: map_of_eq_None_iff)
  then show ?thesis
    by (simp add: map_of_build_headers [OF assms(1)])
qed

lemma last_filter_no_later:
  assumes "P x" and "\<forall>p \<in> set post. \<not> P p"
  shows "last (filter P (pre @ x # post)) = x"
proof -
  from assms(2) have "filter P post = []"
    by (simp add: filter_empty_conv)
  with assms(1) show ?thesis by simp
qed

text \<open>The headers that the fixed statements build, before the loop over the custom entries.\<close>

lemma map_of_set_if_present:
  "map_of (set_if_present k field h) n =
     (if n = k \<and> field \<noteq> None \<and> field \<noteq> Some [] then field else map_of h n)"
  by (auto simp: set_if_present_def map_of_setitem split: option.splits)

lemma map_of_fixed_headers:
  "map_of (build_headers initial (req\<lparr>custom_headers := None\<rparr>)) n =
     map_of (set_if_present ''X-Tavily-API-Key'' (tavily_api_key req)
        (set_if_present ''X-OpenAI-Model'' (openai_model req)
          (set_if_present ''X-OpenAI-Base-URL'' (openai_base_url req)
            (set_if_present ''X-OpenAI-API-Key'' (openai_api_key req) initial)))) n"
  by (simp add: build_headers_def)

lemma plain_header_kept:
  assumes "n = ''Content-Type'' \<or> n = ''Accept''"
  shows "map_of (build_headers initial req) n = map_of initial n"
proof -
  have fixed: "map_of (build_headers initial (req\<lparr>custom_headers := None\<rparr>)) n = map_of initial n"
    using assms by (auto simp: map_of_fixed_headers map_of_set_if_present)
  show ?thesis
  proof (cases "custom_headers req")
    case None
    then have "req\<lparr>custom_headers := None\<rparr> = req" by simp
    with fixed show ?thesis by simp
  next
    case (Some items)
    from assms header_key_never_plain
    have "\<forall>p \<in> set items. header_key (fst p) \<noteq> n"
      by auto
    from build_headers_untouched [OF Some this] fixed show ?thesis by simp
  qed
qed

lemma header_key_examples:
  "header_key ''foo'' = ''X-foo''" "header_key ''X-Foo'' = ''X-Foo''"
  "header_key ''OpenAI-Model'' = ''X-OpenAI-Model''"
  "header_key ''X-OpenAI-Model'' = ''X-OpenAI-Model''"
  "header_key ''dup'' = ''X-dup''" "header_key ''X-dup'' = ''X-dup''"
  "header_key ''Content-Type'' = ''X-Content-Type''" "header_key ''Accept'' = ''X-Accept''"
  by (simp_all add: header_key_def startswith_lower_x_dash)

text \<open>
  Claim C6, as stated, fails when two keys of the mapping are sent under the same name. Of
  \<^verbatim>\<open>{"dup": "1", "X-dup": "2"}\<close> both handlers send only \<^verbatim>\<open>X-dup: 2\<close>: the entry
  \<^verbatim>\<open>"dup": "1"\<close> is sent as \<^verbatim>\<open>X-dup\<close>, and its value is sent under no header.
\<close>

theorem custom_header_collision:
  "header_key ''dup'' = ''X-dup''
   \<and> test_headers dup_request =
       [(''Content-Type'', ''application/json''), (''X-dup'', ''2'')]
   \<and> stream_headers dup_request =
       [(''Content-Type'', ''application/json''), (''Accept'', ''text/event-stream''),
        (''X-dup'', ''2'')]"
  by (simp add: header_key_examples test_headers_def stream_headers_def build_headers_def
      set_if_present_def dup_request_def hello_request_def)

text \<open>
  Claim C6, amended. For every entry \<^verbatim>\<open>(key, value)\<close> of the custom-header mapping, the
  header name is \<^verbatim>\<open>key\<close> itself when \<^verbatim>\<open>key\<close> begins with \<^verbatim>\<open>X-\<close> or \<^verbatim>\<open>x-\<close> and
  \<^verbatim>\<open>X-<key>\<close> otherwise. The outbound headers of both handlers carry a header of that
  name, and its value is the unmodified value of the last entry of the mapping that is sent
  under that name: the value of the entry itself, unless a later entry is sent under the same
  name.
\<close>

theorem custom_header_last_wins:
  assumes "custom_headers req = Some items" and "(key, value) \<in> set items"
  shows "header_key key =
           (if \<exists>rest. key = CHR ''X'' # CHR ''-'' # rest \<or> key = CHR ''x'' # CHR ''-'' # rest
            then key else ''X-'' @ key)
       \<and> map_of (test_headers req) (header_key key) =
           Some (snd (last (filter (\<lambda>p. header_key (fst p) = header_key key) items)))
       \<and> map_of (stream_headers req) (header_key key) =
           Some (snd (last (filter (\<lambda>p. header_key (fst p) = header_key key) items)))
       \<and> (\<forall>pre post. items = pre @ (key, value) # post
              \<and> (\<forall>p \<in> set post. header_key (fst p) \<noteq> header_key key) \<longrightarrow>
            map_of (test_headers req) (header_key key) = Some value
          \<and> map_of (stream_headers req) (header_key key) = Some value)"
proof -
  from assms(2) have sent: "\<exists>p \<in> set items. header_key (fst p) = header_key key"
    by force
  have name: "header_key key =
           (if \<exists>rest. key = CHR ''X'' # CHR ''-'' # rest \<or> key = CHR ''x'' # CHR ''-'' # rest
            then key else ''X-'' @ key)"
    by (simp only: header_key_def startswith_lower_x_dash)
  have test: "map_of (test_headers req) (header_key key) =
           Some (snd (last (filter (\<lambda>p. header_key (fst p) = header_key key) items)))"
    unfolding test_headers_def by (rule build_headers_last_wins [OF assms(1) sent])
  have stream: "map_of (stream_headers req) (header_key key) =
           Some (snd (last (filter (\<lambda>p. header_key (fst p) = header_key key) items)))"
    unfolding stream_headers_def by (rule build_headers_last_wins [OF assms(1) sent])
  have own: "\<forall>pre post. items = pre @ (key, value) # post
              \<and> (\<forall>p \<in> set post. header_key (fst p) \<noteq> header_key key) \<longrightarrow>
            map_of (test_headers req) (header_key key) = Some value
          \<and> map_of (stream_headers req) (header_key key) = Some value"
  proof (intro allI impI)
    fix pre post
    assume at: "items = pre @ (key, value) # post
              \<and> (\<forall>p \<in> set post. header_key (fst p) \<noteq> header_key key)"
    then have "last (filter (\<lambda>p. header_key (fst p) = header_key key)
        (pre @ (key, value) # post)) = (key, value)"
      by (intro last_filter_no_later) simp_all
    with at have "snd (last (filter (\<lambda>p. header_key (fst p) = header_key key) items)) = value"
      by simp
    with test stream
    show "map_of (test_headers req) (header_key key) = Some value
          \<and> map_of (stream_headers req) (header_key key) = Some value"
      by simp
  qed
  from name test stream own show ?thesis
    by (intro conjI)
qed

theorem custom_header_last_wins_witness:
  "custom_headers custom_request = Some [(''foo'', ''bar''), (''X-Foo'', ''bar'')]
   \<and> header_key ''foo'' = ''X-foo''
   \<and> map_of (test_headers custom_request) ''X-foo'' = Some ''bar''
   \<and> map_of (stream_headers custom_request) ''X-foo'' = Some ''bar''
   \<and> header_key ''X-Foo'' = ''X-Foo''
   \<and> map_of (test_headers custom_request) ''X-Foo'' = Some ''bar''
   \<and> map_of (stream_headers custom_request) ''X-Foo'' = Some ''bar''"
proof -
  let ?items = "[(''foo'', ''bar''), (''X-Foo'', ''bar'')]"
  have custom: "custom_headers custom_request = Some ?items"
    by (simp add: custom_request_def)
  have foo: "(''foo'', ''bar'') \<in> set ?items" and x_foo: "(''X-Foo'', ''bar'') \<in> set ?items"
    by simp_all
  have foo_at: "?items = [] @ (''foo'', ''bar'') # [(''X-Foo'', ''bar'')]
      \<and> (\<forall>p \<in> set [(''X-Foo'', ''bar'')]. header_key (fst p) \<noteq> header_key ''foo'')"
    by (simp add: header_key_examples)
  have x_foo_at: "?items = [(''foo'', ''bar'')] @ (''X-Foo'', ''bar'') # []
      \<and> (\<forall>p \<in> set []. header_key (fst p) \<noteq> header_key ''X-Foo'')"
    by simp
  from custom_header_last_wins [OF custom foo] foo_at
  have 1: "map_of (test_headers custom_request) (header_key ''foo'') = Some ''bar''
      \<and> map_of (stream_headers custom_request) (header_key ''foo'') = Some ''bar''"
    by blast
  from custom_header_last_wins [OF custom x_foo] x_foo_at
  have 2: "map_of (test_headers custom_request) (header_key ''X-Foo'') = Some ''bar''
      \<and> map_of (stream_headers custom_request) (header_key ''X-Foo'') = Some ''bar''"
    by blast
  from 1 2 custom show ?thesis
    by (simp add: header_key_examples)
qed

text \<open>
  Before the loop over the custom entries, each of the four \<^verbatim>\<open>X-\<close> names carries its
  dedicated request field when that is present and not empty.
\<close>

lemma dedicated_header:
  assumes "(n, field) \<in> set [(''X-OpenAI-API-Key'', openai_api_key req),
                            (''X-OpenAI-Base-URL'', openai_base_url req),
                            (''X-OpenAI-Model'', openai_model req),
                            (''X-Tavily-API-Key'', tavily_api_key req)]"
    and "map_of initial n = None"
  shows "map_of (build_headers initial (req\<lparr>custom_headers := None\<rparr>)) n =
      (if field = Some [] then None else field)"
proof -
  from assms(1) consider
      "n = ''X-OpenAI-API-Key''" "field = openai_api_key req"
    | "n = ''X-OpenAI-Base-URL''" "field = openai_base_url req"
    | "n = ''X-OpenAI-Model''" "field = openai_model req"
    | "n = ''X-Tavily-API-Key''" "field = tavily_api_key req"
    by auto
  then show ?thesis
  proof cases
    case 1
    with assms(2) show ?thesis
      by (simp add: map_of_fixed_headers map_of_set_if_present)
  next
    case 2
    with assms(2) show ?thesis
      by (simp add: map_of_fixed_headers map_of_set_if_present)
  next
    case 3
    with assms(2) show ?thesis
      by (simp add: map_of_fixed_headers map_of_set_if_present)
  next
    case 4
    with assms(2) show ?thesis
      by (simp add: map_of_fixed_headers map_of_set_if_present)
  qed
qed

text \<open>
  Claim C10, as stated, fails twice. No key is ever sent as \<^verbatim>\<open>Content-Type\<close> or
  \<^verbatim>\<open>Accept\<close>: custom headers of these names are sent as \<^verbatim>\<open>X-Content-Type\<close> and
  \<^verbatim>\<open>X-Accept\<close>, and the built-in defaults stay. And of two custom keys sent under one fixed
  name only the later value is sent: with \<^verbatim>\<open>{"OpenAI-Model": "a", "X-OpenAI-Model": "b"}\<close>
  the custom value \<^verbatim>\<open>a\<close> overrides nothing.
\<close>

theorem custom_header_no_override:
  "header_key ''Content-Type'' = ''X-Content-Type''
   \<and> header_key ''Accept'' = ''X-Accept''
   \<and> test_headers plain_names_request =
       [(''Content-Type'', ''application/json''),
        (''X-Content-Type'', ''text/plain''), (''X-Accept'', ''text/plain'')]
   \<and> stream_headers plain_names_request =
       [(''Content-Type'', ''application/json''), (''Accept'', ''text/event-stream''),
        (''X-Content-Type'', ''text/plain''), (''X-Accept'', ''text/plain'')]
   \<and> header_key ''OpenAI-Model'' = ''X-OpenAI-Model''
   \<and> test_headers clash_request =
       [(''Content-Type'', ''application/json''), (''X-OpenAI-Model'', ''b'')]
   \<and> stream_headers clash_request =
       [(''Content-Type'', ''application/json''), (''Accept'', ''text/event-stream''),
        (''X-OpenAI-Model'', ''b'')]"
  by (simp add: header_key_examples test_headers_def stream_headers_def build_headers_def
      set_if_present_def plain_names_request_def clash_request_def hello_request_def)

text \<open>
  Claim C10, amended. In both handlers the custom headers are assigned after the fixed ones.
  For each of the four fixed \<^verbatim>\<open>X-\<close> names, the fixed statements send the dedicated request
  field when it is present and not empty; when some custom entry is sent under that name, the
  value of the last such entry replaces it, and otherwise it stays. No custom entry is sent as
  \<^verbatim>\<open>Content-Type\<close> or \<^verbatim>\<open>Accept\<close>, so the built-in defaults are never overridden:
  \<^verbatim>\<open>Content-Type\<close> is always \<^verbatim>\<open>application/json\<close> and, when streaming,
  \<^verbatim>\<open>Accept\<close> is always \<^verbatim>\<open>text/event-stream\<close>.
\<close>

theorem custom_header_overrides_dedicated:
  assumes "custom_headers req = Some items"
    and "(n, field) \<in> set [(''X-OpenAI-API-Key'', openai_api_key req),
                            (''X-OpenAI-Base-URL'', openai_base_url req),
                            (''X-OpenAI-Model'', openai_model req),
                            (''X-Tavily-API-Key'', tavily_api_key req)]"
  shows "map_of (test_headers (req\<lparr>custom_headers := None\<rparr>)) n =
           (if field = Some [] then None else field)
       \<and> map_of (stream_headers (req\<lparr>custom_headers := None\<rparr>)) n =
           (if field = Some [] then None else field)
       \<and> ((\<exists>p \<in> set items. header_key (fst p) = n) \<longrightarrow>
            map_of (test_headers req) n =
              Some (snd (last (filter (\<lambda>p. header_key (fst p) = n) items)))
          \<and> map_of (stream_headers req) n =
              Some (snd (last (filter (\<lambda>p. header_key (fst p) = n) items))))
       \<and> ((\<forall>p \<in> set items. header_key (fst p) \<noteq> n) \<longrightarrow>
            map_of (test_headers req) n = (if field = Some [] then None else field)
          \<and> map_of (stream_headers req) n = (if field = Some [] then None else field))
       \<and> (\<forall>key. header_key key \<noteq> ''Content-Type'' \<and> header_key key \<noteq> ''Accept'')
       \<and> map_of (test_headers req) ''Content-Type'' = Some ''application/json''
       \<and> map_of (stream_headers req) ''Content-Type'' = Some ''application/json''
       \<and> map_of (stream_headers req) ''Accept'' = Some ''text/event-stream''"
proof -
  have fixed_test: "map_of (test_headers (req\<lparr>custom_headers := None\<rparr>)) n =
           (if field = Some [] then None else field)"
  proof -
    from assms(2) have "map_of [(''Content-Type'', ''application/json'')] n = None"
      by auto
    from dedicated_header [OF assms(2) this] show ?thesis
      by (simp only: test_headers_def)
  qed
  have fixed_stream: "map_of (stream_headers (req\<lparr>custom_headers := None\<rparr>)) n =
           (if field = Some [] then None else field)"
  proof -
    from assms(2)
    have "map_of [(''Content-Type'', ''application/json''), (''Accept'', ''text/event-stream'')] n
        = None"
      by auto
    from dedicated_header [OF assms(2) this] show ?thesis
      by (simp only: stream_headers_def)
  qed
  have over: "(\<exists>p \<in> set items. header_key (fst p) = n) \<longrightarrow>
            map_of (test_headers req) n =
              Some (snd (last (filter (\<lambda>p. header_key (fst p) = n) items)))
          \<and> map_of (stream_headers req) n =
              Some (snd (last (filter (\<lambda>p. header_key (fst p) = n) items)))"
  proof
    assume sent: "\<exists>p \<in> set items. header_key (fst p) = n"
    show "map_of (test_headers req) n =
              Some (snd (last (filter (\<lambda>p. header_key (fst p) = n) items)))
          \<and> map_of (stream_headers req) n =
              Some (snd (last (filter (\<lambda>p. header_key (fst p) = n) items)))"
      unfolding test_headers_def stream_headers_def
      by (simp only: build_headers_last_wins [OF assms(1) sent])
  qed
  have stay: "(\<forall>p \<in> set items. header_key (fst p) \<noteq> n) \<longrightarrow>
            map_of (test_headers req) n = (if field = Some [] then None else field)
          \<and> map_of (stream_headers req) n = (if field = Some [] then None else field)"
  proof
    assume unsent: "\<forall>p \<in> set items. header_key (fst p) \<noteq> n"
    show "map_of (test_headers req) n = (if field = Some [] then None else field)
          \<and> map_of (stream_headers req) n = (if field = Some [] then None else field)"
      using fixed_test fixed_stream
      unfolding test_headers_def stream_headers_def
      by (simp only: build_headers_untouched [OF assms(1) unsent])
  qed
  have never: "\<forall>key. header_key key \<noteq> ''Content-Type'' \<and> header_key key \<noteq> ''Accept''"
    using header_key_never_plain by blast
  have content_type: "map_of (test_headers req) ''Content-Type'' = Some ''application/json''"
    by (simp add: test_headers_def plain_header_kept)
  have stream_content_type:
    "map_of (stream_headers req) ''Content-Type'' = Some ''application/json''"
    by (simp add: stream_headers_def plain_header_kept)
  have accept: "map_of (stream_headers req) ''Accept'' = Some ''text/event-stream''"
    by (simp add: stream_headers_def plain_header_kept)
  from fixed_test fixed_stream over stay never content_type stream_content_type accept
  show ?thesis
    by (intro conjI)
qed

theorem custom_header_overrides_dedicated_witness:
  "custom_headers override_request = Some [(''OpenAI-Model'', ''local'')]
   \<and> openai_model override_request = Some ''gpt-4''
   \<and> header_key ''OpenAI-Model'' = ''X-OpenAI-Model''
   \<and> map_of (test_headers (override_request\<lparr>custom_headers := None\<rparr>)) ''X-OpenAI-Model''
       = Some ''gpt-4''
   \<and> map_of (test_headers override_request) ''X-OpenAI-Model'' = Some ''local''
   \<and> map_of (stream_headers override_request) ''X-OpenAI-Model'' = Some ''local''
   \<and> map_of (test_headers override_request) ''Content-Type'' = Some ''application/json''
   \<and> map_of (stream_headers override_request) ''Accept'' = Some ''text/event-stream''"
proof -
  let ?items = "[(''OpenAI-Model'', ''local'')]"
  have custom: "custom_headers override_request = Some ?items"
    by (simp add: override_request_def)
  have field: "openai_model override_request = Some ''gpt-4''"
    by (simp add: override_request_def)
  have fixed: "(''X-OpenAI-Model'', Some ''gpt-4'') \<in>
      set [(''X-OpenAI-API-Key'', openai_api_key override_request),
           (''X-OpenAI-Base-URL'', openai_base_url override_request),
           (''X-OpenAI-Model'', openai_model override_request),
           (''X-Tavily-API-Key'', tavily_api_key override_request)]"
    by (simp add: field)
  have sent: "\<exists>p \<in> set ?items. header_key (fst p) = ''X-OpenAI-Model''"
    by (simp add: header_key_examples)
  have last: "snd (last (filter (\<lambda>p. header_key (fst p) = ''X-OpenAI-Model'') ?items)) = ''local''"
    by (simp add: header_key_examples)
  note over = custom_header_overrides_dedicated [OF custom fixed]
  from over sent last custom field show ?thesis
    by (simp add: header_key_examples)
qed

end
